theory Spec2Isabelle
  imports Complex_Main "HOL-Library.Log_Nat"
begin

section \<open>Notendashboard: the progress evaluation of \<open>main.py\<close>\<close>

text \<open>
  The model follows \<open>calculate_weighted_average\<close> and the evaluation part of the
  \<open>dashboard\<close> view: the three loops over \<open>semesters\<close> and the overall goal block
  (lines 456-571). The form handling above them and the rendering below are not modelled.

  Modelling decisions.
  \<^item> A Python \<open>float\<close> is an IEEE double. It is modelled by its value, a real, and
    every arithmetic operation on floats is the exact operation followed by rounding to
    the nearest double, ties to even (\<open>round_double\<close>), gradual underflow included.
    Python's \<open>inf\<close> and \<open>nan\<close> are not numbers of the data model: a result beyond the
    largest double is not represented.
  \<^item> \<open>module.ects\<close> is an \<open>Integer\<close> column: an \<open>int\<close>; its conversion to a float
    rounds like every other operation. The forms store only \<open>ects > 0\<close>; the model
    admits every integer.
  \<^item> \<open>grade\<close> and the two \<open>target_date\<close> values may be \<open>None\<close>; \<open>target_grade\<close> is
    always written as a float by the code that creates or updates a semester.
  \<^item> Exceptions that leave a function are values \<open>Inl e\<close> of a sum type; the
    \<open>ValueError\<close> of the date parser, which the source catches, is the value \<open>None\<close>
    of the parser.
  \<^item> \<open>datetime.now()\<close> is a parameter \<open>now\<close>, read once per pass.
\<close>

subsection \<open>Data\<close>

datatype py_error = TypeError | ZeroDivisionError | OverflowError

record module =
  mod_name :: string
  ects :: int
  grade :: "real option"

subsection \<open>Double-precision arithmetic\<close>

text \<open>Rounding to the nearest integer, ties to the even one.\<close>

definition round_half_even :: "real \<Rightarrow> int" where
  "round_half_even x =
     (if x - of_int \<lfloor>x\<rfloor> < 1 / 2 then \<lfloor>x\<rfloor>
      else if x - of_int \<lfloor>x\<rfloor> > 1 / 2 then \<lfloor>x\<rfloor> + 1
      else if even \<lfloor>x\<rfloor> then \<lfloor>x\<rfloor> else \<lfloor>x\<rfloor> + 1)"

text \<open>
  The binary exponent of a real \<open>x \<noteq> 0\<close>: the \<open>e\<close> with \<open>2^e \<le> |x| < 2^(e+1)\<close>, computed
  from the bit length of an integer.
\<close>

definition exponent :: "real \<Rightarrow> int" where
  "exponent x =
     (if 1 \<le> \<bar>x\<bar> then bitlen \<lfloor>\<bar>x\<bar>\<rfloor> - 1 else - bitlen (\<lceil>1 / \<bar>x\<bar>\<rceil> - 1))"

text \<open>
  The nearest double: a multiple of \<open>2^(e - 52)\<close>, where \<open>e\<close> is the exponent of the value
  and at least \<open>-1022\<close> (below that the doubles are equally spaced).
\<close>

definition round_double :: "real \<Rightarrow> real" where
  "round_double x =
     (if x = 0 then 0
      else (let e = max (exponent x) (- 1022); q = 2 powi (e - 52)
            in of_int (round_half_even (x / q)) * q))"

text \<open>A float literal or \<open>float(string)\<close>: the double nearest to the decimal.\<close>

definition py_float :: "real \<Rightarrow> real" where
  "py_float x = round_double x"

text \<open>The conversion of an \<open>int\<close> operand, and \<open>*\<close> and \<open>+\<close> on floats.\<close>

definition float_of_int :: "int \<Rightarrow> real" where
  "float_of_int n = round_double (of_int n)"

definition fmul :: "real \<Rightarrow> real \<Rightarrow> real" where
  "fmul x y = round_double (x * y)"

definition fadd :: "real \<Rightarrow> real \<Rightarrow> real" where
  "fadd x y = round_double (x + y)"

text \<open>Python's \<open>/\<close> on floats: raises \<open>ZeroDivisionError\<close> when the divisor is zero.\<close>

definition truediv :: "real \<Rightarrow> real \<Rightarrow> py_error + real" where
  "truediv x y = (if y = 0 then Inl ZeroDivisionError else Inr (round_double (x / y)))"

subsection \<open>\<open>calculate_weighted_average\<close>\<close>

text \<open>
  The \<open>for module in modules\<close> loop, with the two accumulators
  \<open>(weighted_sum, total_ects)\<close> passed along.
\<close>

fun weighted_loop :: "module list \<Rightarrow> real \<times> int \<Rightarrow> real \<times> int" where
  "weighted_loop [] acc = acc"
| "weighted_loop (m # ms) (weighted_sum, total_ects) =
     (case grade m of
        Some g \<Rightarrow>
          weighted_loop ms
            (fadd weighted_sum (fmul g (float_of_int (ects m))), total_ects + ects m)
      | None \<Rightarrow> weighted_loop ms (weighted_sum, total_ects))"

definition calculate_weighted_average :: "module list \<Rightarrow> py_error + real option" where
  "calculate_weighted_average modules =
     (case weighted_loop modules (0, 0) of
        (weighted_sum, total_ects) \<Rightarrow>
          if total_ects > 0
          then (case truediv weighted_sum (float_of_int total_ects) of
                  Inl e \<Rightarrow> Inl e
                | Inr q \<Rightarrow> Inr (Some q))
          else Inr None)"

subsection \<open>Specification-side notions for the average\<close>

text \<open>
  The graded units of a sequence, the exact sums the specification speaks of, and the
  sum of the products as double arithmetic computes it, unit after unit.
\<close>

definition graded :: "module list \<Rightarrow> module list" where
  "graded ms = filter (\<lambda>m. grade m \<noteq> None) ms"


definition weight_sum :: "module list \<Rightarrow> int" where
  "weight_sum ms = (\<Sum>m\<leftarrow>graded ms. ects m)"

definition contributing_grades :: "module list \<Rightarrow> real set" where
  "contributing_grades ms = (\<lambda>m. the (grade m)) ` set (graded ms)"

definition add_unit :: "real \<Rightarrow> module \<Rightarrow> real" where
  "add_unit s m = fadd s (fmul (the (grade m)) (float_of_int (ects m)))"

definition float_weighted_sum :: "module list \<Rightarrow> real" where
  "float_weighted_sum ms = foldl add_unit 0 (graded ms)"

text \<open>The unit roundoff of double arithmetic, \<open>2^-53\<close>.\<close>

definition unit_roundoff :: real where
  "unit_roundoff = 2 powi (- 53)"

subsection \<open>Dates and times\<close>

text \<open>
  A \<open>datetime\<close> is the number of microseconds since \<open>datetime.min\<close>
  (0001-01-01 00:00:00); a \<open>timedelta\<close> is a number of microseconds. Python raises
  \<open>OverflowError\<close> when \<open>datetime \<plusminus> timedelta\<close> leaves the range up to
  \<open>datetime.max\<close> (9999-12-31 23:59:59.999999, ordinal day 3652059).
\<close>

type_synonym datetime = int
type_synonym timedelta = int

definition days :: "int \<Rightarrow> timedelta" where
  "days n = n * 86400000000"

definition datetime_max :: datetime where
  "datetime_max = 3652059 * 86400000000 - 1"

definition datetime_add :: "datetime \<Rightarrow> timedelta \<Rightarrow> py_error + datetime" where
  "datetime_add d td =
     (if 0 \<le> d + td \<and> d + td \<le> datetime_max then Inr (d + td) else Inl OverflowError)"

definition datetime_sub :: "datetime \<Rightarrow> timedelta \<Rightarrow> py_error + datetime" where
  "datetime_sub d td = datetime_add d (- td)"

text \<open>
  \<open>datetime.strptime(s, '%Y-%m-%d')\<close> is library code: the model takes the parser as a
  parameter \<open>strp\<close>, with \<open>None\<close> for the \<open>ValueError\<close> of a string that does not
  parse. The \<open>target_date\<close> columns are nullable; \<open>strptime(None, ...)\<close> raises
  \<open>TypeError\<close>, which no handler in \<open>dashboard\<close> catches.
\<close>

type_synonym strptime_fn = "string \<Rightarrow> datetime option"

definition strptime :: "strptime_fn \<Rightarrow> string option \<Rightarrow> py_error + datetime option" where
  "strptime strp date_string =
     (case date_string of
        None \<Rightarrow> Inl TypeError
      | Some s \<Rightarrow> Inr (strp s))"

subsection \<open>Semesters and their goal annotation\<close>

record semester =
  sem_id :: int
  name :: string
  target_date :: "string option"
  target_grade :: real
  modules :: "module list"

text \<open>
  The German message texts contain umlauts; each sentence of the source is a constructor,
  and a message is the list of the sentences concatenated so far (\<open>+=\<close> appends).
\<close>

datatype satz =
    GuterWeg               \<comment> \<open>"Du bist auf einem guten Weg, dein Ziel zu erreichen!"\<close>
  | Anstrengen             \<comment> \<open>"Du musst dich noch etwas anstrengen, um deine Zielnote zu erreichen."\<close>
  | ZeitLaeuftAb           \<comment> \<open>" Achtung: Die Zeit fuer dieses Semester laeuft ab!"\<close>
  | ZeitFehler             \<comment> \<open>" Fehler beim Berechnen des Zeitfortschritts."\<close>
  | KeineNoten             \<comment> \<open>"Es gibt noch keine Noten in diesem Semester."\<close>
  | GuterWegGesamt         \<comment> \<open>"Du bist auf einem guten Weg, dein Gesamtziel zu erreichen!"\<close>
  | AnstrengenGesamt       \<comment> \<open>"Du musst dich noch etwas anstrengen, um deine Gesamtzielnote zu erreichen."\<close>
  | ZeitLaeuftAbStudium    \<comment> \<open>" Achtung: Die Zeit fuer dein Studium laeuft ab!"\<close>
  | KeineNotenGesamt       \<comment> \<open>"Es gibt noch keine Noten, um den Fortschritt zu berechnen."\<close>

record ziel =
  ziel_nachricht :: "satz list"
  ziel_klasse :: string
  fortschritt_farbe :: string

text \<open>The colour of the progress bar (lines 497-502 and 539-544).\<close>

definition farbe_von_klasse :: "string \<Rightarrow> string" where
  "farbe_von_klasse klasse =
     (if klasse = ''ziel-erreicht'' then ''#4CAF50''
      else if klasse = ''ziel-gefaehrdet'' then ''#ff9800''
      else ''#f44336'')"

text \<open>
  The \<open>try\<close> block of the time check: \<open>dauer\<close> is the assumed length of the window in
  days (180 for a semester, \<open>3 * 365\<close> for the programme), \<open>warnung\<close> the sentence added
  when the window has run out. A \<open>ValueError\<close> of the parser is handled; \<open>TypeError\<close>
  and \<open>OverflowError\<close> leave the function.
\<close>

definition zeitfortschritt ::
  "strptime_fn \<Rightarrow> datetime \<Rightarrow> string option \<Rightarrow> int \<Rightarrow> satz \<Rightarrow> satz list \<times> string
     \<Rightarrow> py_error + satz list \<times> string" where
  "zeitfortschritt strp now date_string dauer warnung nk =
     (case nk of (nachricht, klasse) \<Rightarrow>
        (case strptime strp date_string of
           Inl e \<Rightarrow> Inl e
         | Inr None \<Rightarrow> Inr (nachricht @ [ZeitFehler], ''ziel-verfehlt'')
         | Inr (Some target) \<Rightarrow>
             (case datetime_sub target (days dauer) of
                Inl e \<Rightarrow> Inl e
              | Inr start \<Rightarrow>
                  (let vergangene_zeit = now - start;
                       gesamte_zeit = days dauer;
                       zeit_prozent = real_of_int vergangene_zeit / real_of_int gesamte_zeit * 100
                   in if zeit_prozent > 100
                      then Inr (nachricht @ [warnung], ''ziel-verfehlt'')
                      else Inr (nachricht, klasse)))))"

text \<open>The body of the second loop over \<open>semesters\<close> (lines 465-502).\<close>

definition semester_ziel ::
  "strptime_fn \<Rightarrow> datetime \<Rightarrow> semester \<Rightarrow> real option \<Rightarrow> py_error + ziel" where
  "semester_ziel strp now semester average =
     (case (case average of
              Some avg \<Rightarrow>
                zeitfortschritt strp now (target_date semester) 180 ZeitLaeuftAb
                  (if avg \<le> target_grade semester
                   then ([GuterWeg], ''ziel-erreicht'')
                   else ([Anstrengen], ''ziel-gefaehrdet''))
            | None \<Rightarrow> Inr ([KeineNoten], ''ziel-gefaehrdet'')) of
        Inl e \<Rightarrow> Inl e
      | Inr (nachricht, klasse) \<Rightarrow>
          Inr \<lparr>ziel_nachricht = nachricht, ziel_klasse = klasse,
               fortschritt_farbe = farbe_von_klasse klasse\<rparr>)"

subsection \<open>The overall goal\<close>

text \<open>Python's \<open>int(x)\<close> on a float truncates towards zero.\<close>

definition py_int :: "real \<Rightarrow> int" where
  "py_int x = (if 0 \<le> x then \<lfloor>x\<rfloor> else \<lceil>x\<rceil>)"

record overall_ziel =
  overall_ziel_nachricht :: "satz list"
  overall_ziel_klasse :: string
  overall_fortschritt_prozent :: int
  overall_fortschritt_farbe :: string

text \<open>The grade part of the overall block (lines 510-518).\<close>

definition overall_notenfortschritt ::
  "real \<Rightarrow> real \<Rightarrow> py_error + (satz list \<times> string) \<times> int" where
  "overall_notenfortschritt overall_target_grade total_average =
     (if total_average \<le> overall_target_grade
      then Inr (([GuterWegGesamt], ''ziel-erreicht''), 100)
      else if total_average > 0
      then (case truediv overall_target_grade total_average of
              Inl e \<Rightarrow> Inl e
            | Inr q \<Rightarrow> Inr (([AnstrengenGesamt], ''ziel-gefaehrdet''), py_int (fmul q (float_of_int 100))))
      else Inr (([AnstrengenGesamt], ''ziel-gefaehrdet''), 0))"

text \<open>The whole overall block (lines 505-544).\<close>

definition dashboard_overall_ziel ::
  "strptime_fn \<Rightarrow> datetime \<Rightarrow> string option \<Rightarrow> real \<Rightarrow> real option \<Rightarrow> py_error + overall_ziel" where
  "dashboard_overall_ziel strp now overall_target_date_str overall_target_grade total_average =
     (case (case total_average of
              Some avg \<Rightarrow>
                (case overall_notenfortschritt overall_target_grade avg of
                   Inl e \<Rightarrow> Inl e
                 | Inr (nk, prozent) \<Rightarrow>
                     (case zeitfortschritt strp now overall_target_date_str (3 * 365)
                             ZeitLaeuftAbStudium nk of
                        Inl e \<Rightarrow> Inl e
                      | Inr nk' \<Rightarrow> Inr (nk', prozent)))
            | None \<Rightarrow> Inr (([KeineNotenGesamt], ''ziel-gefaehrdet''), 0)) of
        Inl e \<Rightarrow> Inl e
      | Inr ((nachricht, klasse), prozent) \<Rightarrow>
          Inr \<lparr>overall_ziel_nachricht = nachricht, overall_ziel_klasse = klasse,
               overall_fortschritt_prozent = prozent,
               overall_fortschritt_farbe = farbe_von_klasse klasse\<rparr>)"

subsection \<open>Completion of a semester\<close>

text \<open>
  The flags \<open>session['semester_<id>_abgeschlossen']\<close>: a map from the semester id to the
  stored value; \<open>session.get\<close> of a missing key is \<open>None\<close>, which \<open>not\<close> treats like
  \<open>False\<close>. A flashed message is its text and its category.
\<close>

type_synonym session = "int \<rightharpoonup> bool"

text \<open>
  \<open>'{:.2f}'\<close> prints the value rounded to two decimals, ties to even; the model keeps
  the printed number as a count of hundredths.
\<close>

definition format_2f :: "real \<Rightarrow> int" where
  "format_2f x = round_half_even (x * 100)"

datatype flash_text =
    SemesterAbgeschlossen string int
      \<comment> \<open>"Das Semester '<name>' ist abgeschlossen! Durchschnittsnote: <average:.2f>"\<close>
  | UngueltigesZieldatum string
      \<comment> \<open>"Ungueltiges Zieldatum Format fuer Semester <name>. ..."\<close>

type_synonym flash = "flash_text \<times> string"

text \<open>\<open>all(module.grade is not None for module in semester.modules)\<close>\<close>

definition all_graded :: "module list \<Rightarrow> bool" where
  "all_graded ms = list_all (\<lambda>m. grade m \<noteq> None) ms"

definition melde_abgeschlossen :: "semester \<Rightarrow> real \<Rightarrow> session \<times> flash list \<Rightarrow> session \<times> flash list" where
  "melde_abgeschlossen semester avg st =
     (case st of (sess, flashes) \<Rightarrow>
        if sess (sem_id semester) \<noteq> Some True
        then (sess(sem_id semester \<mapsto> True),
              flashes @ [(SemesterAbgeschlossen (name semester) (format_2f avg), ''success'')])
        else (sess, flashes))"

text \<open>The body of the third loop over \<open>semesters\<close> (lines 547-571).\<close>

definition semester_abgeschlossen ::
  "strptime_fn \<Rightarrow> datetime \<Rightarrow> semester \<Rightarrow> real option \<Rightarrow> session \<times> flash list
     \<Rightarrow> py_error + session \<times> flash list" where
  "semester_abgeschlossen strp now semester average st =
     (case average of
        None \<Rightarrow> Inr st
      | Some avg \<Rightarrow>
          (case strptime strp (target_date semester) of
             Inl e \<Rightarrow> Inl e
           | Inr None \<Rightarrow>
               Inr (fst st, snd st @ [(UngueltigesZieldatum (name semester), ''danger'')])
           | Inr (Some semester_ziel_datum) \<Rightarrow>
               (case datetime_add semester_ziel_datum (days 30) of
                  Inl e \<Rightarrow> Inl e
                | Inr grenze \<Rightarrow>
                    if now > grenze then Inr (melde_abgeschlossen semester avg st)
                    else if all_graded (modules semester)
                    then Inr (melde_abgeschlossen semester avg st)
                    else Inr ((fst st)(sem_id semester \<mapsto> False), snd st))))"

subsection \<open>One evaluation pass of \<open>dashboard\<close>\<close>

text \<open>
  The three loops and the overall block, in the order of the source (lines 456-571). An
  exception in any of them ends the pass. The clock is read once per pass.
\<close>

fun average_loop :: "semester list \<Rightarrow> py_error + real option list" where
  "average_loop [] = Inr []"
| "average_loop (s # ss) =
     (case calculate_weighted_average (modules s) of
        Inl e \<Rightarrow> Inl e
      | Inr a \<Rightarrow> (case average_loop ss of Inl e \<Rightarrow> Inl e | Inr as \<Rightarrow> Inr (a # as)))"

fun ziel_loop ::
  "strptime_fn \<Rightarrow> datetime \<Rightarrow> (semester \<times> real option) list \<Rightarrow> py_error + ziel list" where
  "ziel_loop strp now [] = Inr []"
| "ziel_loop strp now ((s, a) # rest) =
     (case semester_ziel strp now s a of
        Inl e \<Rightarrow> Inl e
      | Inr z \<Rightarrow> (case ziel_loop strp now rest of Inl e \<Rightarrow> Inl e | Inr zs \<Rightarrow> Inr (z # zs)))"

fun abgeschlossen_loop ::
  "strptime_fn \<Rightarrow> datetime \<Rightarrow> (semester \<times> real option) list \<Rightarrow> session \<times> flash list
     \<Rightarrow> py_error + session \<times> flash list" where
  "abgeschlossen_loop strp now [] st = Inr st"
| "abgeschlossen_loop strp now ((s, a) # rest) st =
     (case semester_abgeschlossen strp now s a st of
        Inl e \<Rightarrow> Inl e
      | Inr st' \<Rightarrow> abgeschlossen_loop strp now rest st')"

record dashboard_result =
  averages :: "real option list"
  total_average :: "real option"
  ziele :: "ziel list"
  overall :: overall_ziel
  session_after :: session
  flashed :: "flash list"

definition dashboard ::
  "strptime_fn \<Rightarrow> datetime \<Rightarrow> semester list \<Rightarrow> string option \<Rightarrow> real \<Rightarrow> session
     \<Rightarrow> py_error + dashboard_result" where
  "dashboard strp now semesters overall_target_date_str overall_target_grade sess =
     (case average_loop semesters of
        Inl e \<Rightarrow> Inl e
      | Inr avgs \<Rightarrow>
     (case calculate_weighted_average (concat (map modules semesters)) of
        Inl e \<Rightarrow> Inl e
      | Inr total_avg \<Rightarrow>
     (case ziel_loop strp now (zip semesters avgs) of
        Inl e \<Rightarrow> Inl e
      | Inr zs \<Rightarrow>
     (case dashboard_overall_ziel strp now overall_target_date_str overall_target_grade total_avg of
        Inl e \<Rightarrow> Inl e
      | Inr ov \<Rightarrow>
     (case abgeschlossen_loop strp now (zip semesters avgs) (sess, []) of
        Inl e \<Rightarrow> Inl e
      | Inr (sess', flashes) \<Rightarrow>
          Inr \<lparr>averages = avgs, total_average = total_avg, ziele = zs, overall = ov,
               session_after = sess', flashed = flashes\<rparr>)))))"

subsection \<open>Specification-side notions for the evaluation\<close>

text \<open>
  The three classifications of the specification, with the class name and the colour
  the specification gives each (green, orange, red).
\<close>

datatype classification = Achieved | AtRisk | Missed

fun klasse_of :: "classification \<Rightarrow> string" where
  "klasse_of Achieved = ''ziel-erreicht''"
| "klasse_of AtRisk = ''ziel-gefaehrdet''"
| "klasse_of Missed = ''ziel-verfehlt''"

fun colour_of :: "classification \<Rightarrow> string" where
  "colour_of Achieved = ''#4CAF50''"
| "colour_of AtRisk = ''#ff9800''"
| "colour_of Missed = ''#f44336''"

text \<open>
  The elapsed fraction, in percent, of the 180-day window that ends at the target date:
  \<open>(now - (target_date - 180d)) / 180d\<close>.
\<close>

definition elapsed_percent :: "datetime \<Rightarrow> datetime \<Rightarrow> real" where
  "elapsed_percent now target =
     real_of_int (now - (target - days 180)) / real_of_int (days 180) * 100"

text \<open>A parser returns \<open>datetime\<close> objects only: values within the range of the type.\<close>

definition datetimes_only :: "strptime_fn \<Rightarrow> bool" where
  "datetimes_only strp = (\<forall>s d. strp s = Some d \<longrightarrow> 0 \<le> d \<and> d \<le> datetime_max)"

text \<open>
  The transition condition of the completion tracker: the deadline plus 30 days has
  passed, or every unit of the term has a grade.
\<close>

definition transition_condition :: "datetime \<Rightarrow> datetime \<Rightarrow> semester \<Rightarrow> bool" where
  "transition_condition now ziel_datum sem =
     (now > ziel_datum + days 30 \<or> all_graded (modules sem))"

text \<open>
  The average of a term, and the messages that the completion check of the term flashes
  when it is run against the session a pass starts with.
\<close>

definition term_average :: "semester \<Rightarrow> real option" where
  "term_average s =
     (case calculate_weighted_average (modules s) of Inr a \<Rightarrow> a | Inl e \<Rightarrow> None)"

definition term_flashes :: "strptime_fn \<Rightarrow> datetime \<Rightarrow> session \<Rightarrow> semester \<Rightarrow> flash list" where
  "term_flashes strp now sess s =
     (case semester_abgeschlossen strp now s (term_average s) (sess, []) of
        Inr st \<Rightarrow> snd st
      | Inl e \<Rightarrow> [])"

text \<open>
  \<open>target_grade / average * 100\<close> in double arithmetic: the quotient, then the product,
  each rounded to the nearest double.
\<close>

definition double_percent :: "real \<Rightarrow> real \<Rightarrow> real" where
  "double_percent target average = round_double (round_double (target / average) * 100)"


subsection \<open>Inputs used in the examples\<close>

text \<open>
  A parser for the examples: it returns what \<open>strptime\<close> returns on the three dates
  listed (midnight of 2020-01-01, 2030-01-01 and 9999-12-31, as days since 0001-01-01);
  every other string used in the examples is not a date.
\<close>

definition beispiel_strptime :: strptime_fn where
  "beispiel_strptime s =
     (if s = ''2020-01-01'' then Some (days 737424)
      else if s = ''2030-01-01'' then Some (days 741077)
      else if s = ''9999-12-31'' then Some (days 3652058)
      else None)"

text \<open>The clock of the examples: 2026-11-03 00:00:00.\<close>

definition beispiel_now :: datetime where
  "beispiel_now = days 739922"

definition mathematik :: module where
  "mathematik = \<lparr>mod_name = ''Mathematik 1'', ects = 6, grade = Some (py_float 1.7)\<rparr>"

definition informatik :: module where
  "informatik = \<lparr>mod_name = ''Informatik 1'', ects = 6, grade = Some (py_float 2.3)\<rparr>"

definition physik :: module where
  "physik = \<lparr>mod_name = ''Physik'', ects = 3, grade = Some (py_float 4.0)\<rparr>"

definition offenes_modul :: module where
  "offenes_modul = \<lparr>mod_name = ''Statistik'', ects = 5, grade = None\<rparr>"


definition gutschrift :: module where
  "gutschrift = \<lparr>mod_name = ''Gutschrift'', ects = 3, grade = Some (py_float 1.0)\<rparr>"

definition abzug :: module where
  "abzug = \<lparr>mod_name = ''Abzug'', ects = - 1, grade = Some (py_float 5.0)\<rparr>"

definition modul_ohne_ects :: module where
  "modul_ohne_ects = \<lparr>mod_name = ''Seminar'', ects = 0, grade = Some (py_float 1.3)\<rparr>"

text \<open>
  The sample semester of the source (both modules graded), the same semester after an
  ungraded module has been added, a semester with a target date typed in the German
  format, and a semester without any grade.
\<close>

definition semester1 :: semester where
  "semester1 = \<lparr>sem_id = 1, name = ''Semester 1'', target_date = Some ''2030-01-01'',
       target_grade = 2.0, modules = [mathematik, informatik]\<rparr>"

definition semester1_erweitert :: semester where
  "semester1_erweitert = \<lparr>sem_id = 1, name = ''Semester 1'', target_date = Some ''2030-01-01'',
       target_grade = 2.0, modules = [mathematik, informatik, offenes_modul]\<rparr>"

definition semester2 :: semester where
  "semester2 = \<lparr>sem_id = 2, name = ''Semester 2'', target_date = Some ''31.12.2026'',
       target_grade = 2.0, modules = [mathematik, informatik]\<rparr>"

definition semester3 :: semester where
  "semester3 = \<lparr>sem_id = 3, name = ''Semester 3'', target_date = Some ''31.12.2026'',
       target_grade = 2.0, modules = [offenes_modul]\<rparr>"

text \<open>A semester whose window ended in 2020, and one with the last date of the calendar.\<close>

definition semester4 :: semester where
  "semester4 = \<lparr>sem_id = 4, name = ''Semester 4'', target_date = Some ''2020-01-01'',
       target_grade = 2.0, modules = [mathematik, physik]\<rparr>"

definition semester5 :: semester where
  "semester5 = \<lparr>sem_id = 5, name = ''Semester 5'', target_date = Some ''9999-12-31'',
       target_grade = 2.0, modules = [mathematik, informatik]\<rparr>"

text \<open>A graded semester whose target date was never set.\<close>

definition semester6 :: semester where
  "semester6 = \<lparr>sem_id = 6, name = ''Semester 6'', target_date = None,
       target_grade = 2.0, modules = [mathematik, informatik]\<rparr>"

subsection \<open>Facts about double rounding\<close>

lemma round_half_even_error: "\<bar>real_of_int (round_half_even y) - y\<bar> \<le> 1 / 2"
proof -
  have "real_of_int \<lfloor>y\<rfloor> \<le> y" "y < real_of_int \<lfloor>y\<rfloor> + 1" by linarith+
  then show ?thesis
    unfolding round_half_even_def by (auto simp: abs_le_iff)
qed

lemma round_half_even_of_int: "round_half_even (real_of_int k) = k"
  by (simp add: round_half_even_def)

lemma exponent_bounds_ge1:
  assumes "1 \<le> \<bar>x\<bar>"
  shows "2 powi (exponent x) \<le> \<bar>x\<bar> \<and> \<bar>x\<bar> < 2 powi (exponent x + 1)"
proof -
  let ?n = "\<lfloor>\<bar>x\<bar>\<rfloor>"
  have n: "0 < ?n" using assms by linarith
  from bitlen_bounds [OF n] have b: "2 ^ nat (bitlen ?n - 1) \<le> ?n" "?n < 2 ^ nat (bitlen ?n)"
    by auto
  have k: "1 \<le> bitlen ?n" using n by (auto simp: bitlen_alt_def)
  have e: "exponent x = bitlen ?n - 1" using assms by (simp add: exponent_def)
  have "(2::real) powi (bitlen ?n - 1) = 2 ^ nat (bitlen ?n - 1)"
    using k by (simp add: power_int_def)
  also have "\<dots> = real_of_int (2 ^ nat (bitlen ?n - 1))" by simp
  also have "\<dots> \<le> real_of_int ?n" using b(1) by (simp only: of_int_le_iff)
  also have "\<dots> \<le> \<bar>x\<bar>" by linarith
  finally have lo: "2 powi (bitlen ?n - 1) \<le> \<bar>x\<bar>" .
  have "?n + 1 \<le> 2 ^ nat (bitlen ?n)" using b(2) by linarith
  then have "real_of_int (?n + 1) \<le> real_of_int (2 ^ nat (bitlen ?n))"
    by (simp only: of_int_le_iff)
  moreover have "\<bar>x\<bar> < real_of_int (?n + 1)" by linarith
  moreover have "real_of_int (2 ^ nat (bitlen ?n)) = 2 ^ nat (bitlen ?n)" by simp
  ultimately have "\<bar>x\<bar> < 2 ^ nat (bitlen ?n)" by linarith
  also have "(2::real) ^ nat (bitlen ?n) = 2 powi (bitlen ?n - 1 + 1)"
    using k by (simp add: power_int_def)
  finally have hi: "\<bar>x\<bar> < 2 powi (bitlen ?n - 1 + 1)" .
  from lo hi e show ?thesis by simp
qed

lemma exponent_bounds_lt1:
  assumes "x \<noteq> 0" and "\<bar>x\<bar> < 1"
  shows "2 powi (exponent x) \<le> \<bar>x\<bar> \<and> \<bar>x\<bar> < 2 powi (exponent x + 1)"
proof -
  let ?y = "1 / \<bar>x\<bar>"
  let ?m = "\<lceil>?y\<rceil> - 1"
  have xpos: "0 < \<bar>x\<bar>" using assms(1) by simp
  have y1: "1 < ?y" using assms xpos by (simp add: field_simps)
  have m: "0 < ?m" using y1 by linarith
  have my: "real_of_int ?m < ?y" "?y \<le> real_of_int ?m + 1" by linarith+
  from bitlen_bounds [OF m] have b: "2 ^ nat (bitlen ?m - 1) \<le> ?m" "?m < 2 ^ nat (bitlen ?m)"
    by auto
  have k: "1 \<le> bitlen ?m" using m by (auto simp: bitlen_alt_def)
  have e: "exponent x = - bitlen ?m" using assms by (simp add: exponent_def)
  have p: "(2::real) powi (- bitlen ?m) = 1 / 2 ^ nat (bitlen ?m)"
    using k by (simp add: power_int_def field_simps power_inverse)
  have p1: "(2::real) powi (- bitlen ?m + 1) = 1 / 2 ^ nat (bitlen ?m - 1)"
    using k by (auto simp: power_int_def field_simps power_inverse)
  have "?m + 1 \<le> 2 ^ nat (bitlen ?m)" using b(2) by linarith
  then have "real_of_int (?m + 1) \<le> real_of_int (2 ^ nat (bitlen ?m))"
    by (simp only: of_int_le_iff)
  moreover have "real_of_int (2 ^ nat (bitlen ?m)) = 2 ^ nat (bitlen ?m)" by simp
  moreover have "real_of_int (?m + 1) = real_of_int ?m + 1" by simp
  ultimately have "?y \<le> 2 ^ nat (bitlen ?m)" using my(2) by linarith
  then have "1 \<le> 2 ^ nat (bitlen ?m) * \<bar>x\<bar>" using xpos by (simp add: field_simps)
  then have lo: "1 / 2 ^ nat (bitlen ?m) \<le> \<bar>x\<bar>" by (simp add: field_simps)
  have "real_of_int (2 ^ nat (bitlen ?m - 1)) \<le> real_of_int ?m"
    using b(1) by (simp only: of_int_le_iff)
  moreover have "real_of_int (2 ^ nat (bitlen ?m - 1)) = 2 ^ nat (bitlen ?m - 1)" by simp
  ultimately have "2 ^ nat (bitlen ?m - 1) < ?y" using my(1) by linarith
  then have "2 ^ nat (bitlen ?m - 1) * \<bar>x\<bar> < 1" using xpos by (simp add: field_simps)
  then have hi: "\<bar>x\<bar> < 1 / 2 ^ nat (bitlen ?m - 1)" by (simp add: field_simps)
  from lo hi e p p1 show ?thesis by simp
qed

lemma exponent_bounds:
  "x \<noteq> 0 \<Longrightarrow> 2 powi (exponent x) \<le> \<bar>x\<bar> \<and> \<bar>x\<bar> < 2 powi (exponent x + 1)"
  using exponent_bounds_ge1 [of x] exponent_bounds_lt1 [of x] by (cases "1 \<le> \<bar>x\<bar>") auto

lemma exponent_normal:
  assumes "2 powi (- 1022) \<le> \<bar>x\<bar>"
  shows "- 1022 \<le> exponent x"
proof (rule ccontr)
  assume "\<not> - 1022 \<le> exponent x"
  then have "exponent x + 1 \<le> - 1022" by simp
  then have "(2::real) powi (exponent x + 1) \<le> 2 powi (- 1022)"
    by (intro power_int_increasing) auto
  moreover have "x \<noteq> 0" using assms by auto
  ultimately show False using exponent_bounds [of x] assms by linarith
qed

lemma round_double_0: "round_double 0 = 0"
  by (simp add: round_double_def)

lemma round_double_normal:
  assumes "2 powi (- 1022) \<le> \<bar>x\<bar>"
  shows "round_double x
     = real_of_int (round_half_even (x / 2 powi (exponent x - 52))) * 2 powi (exponent x - 52)"
proof -
  have "x \<noteq> 0" using assms by auto
  moreover have "max (exponent x) (- 1022) = exponent x"
    using exponent_normal [OF assms] by simp
  ultimately show ?thesis by (simp add: round_double_def Let_def)
qed

text \<open>The relative error of one rounding, in the range of the normal doubles.\<close>

lemma round_double_error:
  assumes "2 powi (- 1022) \<le> \<bar>x\<bar>"
  shows "\<bar>round_double x - x\<bar> \<le> unit_roundoff * \<bar>x\<bar>"
proof -
  have x0: "x \<noteq> 0" using assms by auto
  let ?e = "exponent x"
  let ?q = "(2::real) powi (?e - 52)"
  have q: "0 < ?q" by simp
  have rd: "round_double x = real_of_int (round_half_even (x / ?q)) * ?q"
    by (rule round_double_normal [OF assms])
  have "round_double x - x = (real_of_int (round_half_even (x / ?q)) - x / ?q) * ?q"
    using q by (simp add: rd field_simps)
  then have "\<bar>round_double x - x\<bar> = \<bar>real_of_int (round_half_even (x / ?q)) - x / ?q\<bar> * ?q"
    using q by (simp add: abs_mult)
  also have "\<dots> \<le> 1 / 2 * ?q"
    using round_half_even_error [of "x / ?q"] q by (intro mult_right_mono) auto
  also have "1 / 2 * ?q = 2 powi (- 53) * 2 powi ?e"
  proof -
    have "(2::real) powi (?e - 52) = 2 powi ?e * 2 powi (- 52)"
      using power_int_add [of "2::real" ?e "- 52"] by simp
    then show ?thesis by simp
  qed
  also have "\<dots> \<le> 2 powi (- 53) * \<bar>x\<bar>"
    using exponent_bounds [OF x0] by (intro mult_left_mono) auto
  finally show ?thesis by (simp add: unit_roundoff_def)
qed

lemma unit_roundoff_bounds: "0 < unit_roundoff" "unit_roundoff < 1"
  by (simp_all add: unit_roundoff_def)

lemma normal_le_1: "(2::real) powi (- 1022) \<le> 1"
  using power_int_increasing [of "- 1022" 0 "2::real"] by simp

lemma float_of_int_pos:
  assumes "0 < n"
  shows "0 < float_of_int n"
proof -
  have x: "1 \<le> real_of_int n" using assms by simp
  then have "2 powi (- 1022) \<le> \<bar>real_of_int n\<bar>" using normal_le_1 by linarith
  from round_double_error [OF this]
  have "real_of_int n - unit_roundoff * real_of_int n \<le> round_double (real_of_int n)"
    using x by (simp add: abs_le_iff)
  moreover have "0 < real_of_int n * (1 - unit_roundoff)"
    using x unit_roundoff_bounds by (intro mult_pos_pos) auto
  ultimately show ?thesis by (simp add: float_of_int_def algebra_simps)
qed

subsection \<open>Facts about the loop\<close>

lemma weighted_loop_eq:
  "weighted_loop ms (ws, te) = (foldl add_unit ws (graded ms), te + weight_sum ms)"
proof (induction ms arbitrary: ws te)
  case Nil
  show ?case by (simp add: weight_sum_def graded_def)
next
  case (Cons m ms)
  show ?case
  proof (cases "grade m")
    case None
    then show ?thesis
      using Cons.IH [of ws te] by (simp add: weight_sum_def graded_def)
  next
    case (Some g)
    then show ?thesis
      using Cons.IH [of "fadd ws (fmul g (float_of_int (ects m)))" "te + ects m"]
      by (simp add: weight_sum_def graded_def add_unit_def)
  qed
qed

lemma calculate_weighted_average_eq:
  "calculate_weighted_average ms =
     (if 0 < weight_sum ms
      then Inr (Some (round_double (float_weighted_sum ms / float_of_int (weight_sum ms))))
      else Inr None)"
proof (cases "0 < weight_sum ms")
  case True
  from float_of_int_pos [OF True] have "float_of_int (weight_sum ms) \<noteq> 0" by simp
  with True show ?thesis
    by (simp add: calculate_weighted_average_def weighted_loop_eq truediv_def
        float_weighted_sum_def)
next
  case False
  then show ?thesis
    by (simp add: calculate_weighted_average_def weighted_loop_eq)
qed

lemma graded_Nil: "graded [] = []"
  by (simp add: graded_def)

lemma graded_Cons:
  "graded (m # ms) = (case grade m of None \<Rightarrow> graded ms | Some g \<Rightarrow> m # graded ms)"
  by (simp add: graded_def split: option.split)

lemmas graded_simps = graded_Nil graded_Cons

lemma graded_append_ungraded: "grade u = None \<Longrightarrow> graded (ms @ [u]) = graded ms"
  by (simp add: graded_def)

subsection \<open>The weighted average\<close>




text \<open>
  Claim C6. When no unit has a grade, or the credit weights of the graded units add up
  to zero (as for a single graded unit with 0 credits), \<open>calculate_weighted_average\<close>
  returns the absent average; it returns normally, so no division by zero and no other
  exception has occurred.
\<close>

theorem weighted_average_absent:
  "graded ms = [] \<or> weight_sum ms = 0 \<Longrightarrow> calculate_weighted_average ms = Inr None"
  by (auto simp: calculate_weighted_average_eq weight_sum_def)

theorem weighted_average_absent_witness:
  "(graded [modul_ohne_ects] = [] \<or> weight_sum [modul_ohne_ects] = 0)
   \<and> graded [modul_ohne_ects] \<noteq> []
   \<and> calculate_weighted_average [modul_ohne_ects] = Inr None"
proof -
  have g: "graded [modul_ohne_ects] = [modul_ohne_ects]"
    by (simp add: graded_simps modul_ohne_ects_def)
  have w: "weight_sum [modul_ohne_ects] = 0"
    by (simp add: weight_sum_def g) (simp add: modul_ohne_ects_def)
  show ?thesis
    using weighted_average_absent [of "[modul_ohne_ects]"]
    by (simp add: g w)
qed

text \<open>
  Claim C9. Appending an ungraded unit, whatever its credit weight, to a sequence of
  units does not change the result of \<open>calculate_weighted_average\<close>.
\<close>

theorem weighted_average_ungraded_unit:
  "grade u = None \<Longrightarrow> calculate_weighted_average (ms @ [u]) = calculate_weighted_average ms"
  by (simp add: calculate_weighted_average_eq weight_sum_def float_weighted_sum_def
      graded_append_ungraded)

theorem weighted_average_ungraded_unit_witness:
  "grade offenes_modul = None
   \<and> calculate_weighted_average ([mathematik, informatik] @ [offenes_modul]) = Inr (Some 2)
   \<and> calculate_weighted_average [mathematik, informatik] = Inr (Some 2)"
proof -
  have n: "grade offenes_modul = None" by (simp add: offenes_modul_def)
  have a: "calculate_weighted_average [mathematik, informatik] = Inr (Some 2)" by code_simp
  show ?thesis
    using weighted_average_ungraded_unit [OF n, of "[mathematik, informatik]"] n a by simp
qed

subsection \<open>Facts about the time check\<close>

lemma zeitfortschritt_TypeError:
  "zeitfortschritt strp now None dauer warnung nk = Inl TypeError"
  by (simp add: zeitfortschritt_def strptime_def split: prod.split)

lemma zeitfortschritt_ValueError:
  "strp s = None \<Longrightarrow>
   zeitfortschritt strp now (Some s) dauer warnung (nachricht, klasse)
     = Inr (nachricht @ [ZeitFehler], ''ziel-verfehlt'')"
  by (simp add: zeitfortschritt_def strptime_def)

lemma prozent_gt_100: "0 < g \<Longrightarrow> (v / g * 100 > (100::real)) = (g < v)"
  by (simp add: field_simps)

lemma zeit_prozent_gt_100:
  assumes "0 < dauer"
  shows "(real_of_int (now - start) / real_of_int (days dauer) * 100 > 100)
     = (start + days dauer < now)"
proof -
  have p: "0 < real_of_int (days dauer)" using assms by (simp add: days_def)
  have "(real_of_int (now - start) / real_of_int (days dauer) * 100 > 100)
      = (real_of_int (days dauer) < real_of_int (now - start))"
    by (rule prozent_gt_100 [OF p])
  also have "\<dots> = (start + days dauer < now)" by linarith
  finally show ?thesis .
qed

lemma zeitfortschritt_parsed:
  assumes "strp s = Some target" and "0 < dauer"
  shows "zeitfortschritt strp now (Some s) dauer warnung (nachricht, klasse)
     = (if 0 \<le> target - days dauer \<and> target - days dauer \<le> datetime_max
        then (if target < now then Inr (nachricht @ [warnung], ''ziel-verfehlt'')
              else Inr (nachricht, klasse))
        else Inl OverflowError)"
proof -
  have pz: "(real_of_int (now - (target + - days dauer)) / real_of_int (days dauer) * 100 > 100)
      = (target < now)"
    using zeit_prozent_gt_100 [OF assms(2), of now "target + - days dauer"] by simp
  show ?thesis
    unfolding zeitfortschritt_def strptime_def datetime_sub_def datetime_add_def Let_def
    by (simp only: assms(1) prod.case option.case sum.case pz if_distrib [of "case_sum _ _"]
        cong: if_cong) simp
qed

lemma elapsed_percent_le: "(elapsed_percent now target \<le> 100) = (now \<le> target)"
  using zeit_prozent_gt_100 [of 180 now "target - days 180"]
  by (auto simp: elapsed_percent_def)

lemma datetimes_only_beispiel: "datetimes_only beispiel_strptime"
  by (simp add: datetimes_only_def beispiel_strptime_def days_def datetime_max_def)

lemma format_2f_2: "format_2f 2 = 200"
  by (simp add: format_2f_def round_half_even_def)

subsection \<open>Facts about the goal of a semester\<close>

lemma semester_ziel_cases:
  "semester_ziel strp now sem average = Inr z \<Longrightarrow>
     ziel_klasse z \<in> {''ziel-erreicht'', ''ziel-gefaehrdet'', ''ziel-verfehlt''}
     \<and> fortschritt_farbe z = farbe_von_klasse (ziel_klasse z)"
  by (auto simp: semester_ziel_def zeitfortschritt_def Let_def
      split: option.splits sum.splits if_splits prod.splits)

lemma semester_ziel_klasse_colour:
  assumes "semester_ziel strp now sem average = Inr z"
  shows "\<exists>c. ziel_klasse z = klasse_of c \<and> fortschritt_farbe z = colour_of c"
proof -
  from semester_ziel_cases [OF assms]
  consider "ziel_klasse z = ''ziel-erreicht''" | "ziel_klasse z = ''ziel-gefaehrdet''"
    | "ziel_klasse z = ''ziel-verfehlt''"
    by auto
  then show ?thesis
  proof cases
    case 1
    with semester_ziel_cases [OF assms]
    have "ziel_klasse z = klasse_of Achieved \<and> fortschritt_farbe z = colour_of Achieved"
      by (simp add: farbe_von_klasse_def)
    then show ?thesis ..
  next
    case 2
    with semester_ziel_cases [OF assms]
    have "ziel_klasse z = klasse_of AtRisk \<and> fortschritt_farbe z = colour_of AtRisk"
      by (simp add: farbe_von_klasse_def)
    then show ?thesis ..
  next
    case 3
    with semester_ziel_cases [OF assms]
    have "ziel_klasse z = klasse_of Missed \<and> fortschritt_farbe z = colour_of Missed"
      by (simp add: farbe_von_klasse_def)
    then show ?thesis ..
  qed
qed

lemma semester_ziel_erreicht_iff:
  assumes clock: "days 180 \<le> now" and parser: "datetimes_only strp"
  shows "(\<exists>z. semester_ziel strp now sem average = Inr z \<and> ziel_klasse z = klasse_of Achieved)
     \<longleftrightarrow> (\<exists>avg s target. average = Some avg \<and> avg \<le> target_grade sem
            \<and> target_date sem = Some s \<and> strp s = Some target
            \<and> elapsed_percent now target \<le> 100)"
proof (cases average)
  case None
  then show ?thesis by (simp add: semester_ziel_def)
next
  case (Some avg)
  show ?thesis
  proof (cases "target_date sem")
    case None
    with Some show ?thesis
      by (simp add: semester_ziel_def zeitfortschritt_TypeError)
  next
    case date: (Some s)
    show ?thesis
    proof (cases "strp s")
      case None
      with Some date show ?thesis
        by (simp add: semester_ziel_def zeitfortschritt_ValueError)
    next
      case parsed: (Some target)
      from parser parsed have r: "target \<le> datetime_max"
        by (simp add: datetimes_only_def)
      have k: "days 180 \<ge> 0" by (simp add: days_def)
      show ?thesis
      proof (cases "now \<le> target")
        case True
        with clock r k have "0 \<le> target - days 180 \<and> target - days 180 \<le> datetime_max"
          by linarith
        with Some date parsed True show ?thesis
          by (simp add: semester_ziel_def zeitfortschritt_parsed elapsed_percent_le)
      next
        case False
        with Some date parsed show ?thesis
          by (simp add: semester_ziel_def zeitfortschritt_parsed elapsed_percent_le)
      qed
    qed
  qed
qed

subsection \<open>The goal of a semester\<close>

text \<open>
  Claim C3, as amended. For a term with a present average whose \<open>target_date\<close> string
  does not parse as a date, the evaluation returns (it raises nothing) the class
  \<open>ziel-verfehlt\<close> (Missed), the red colour, and the grade message followed by the
  sentence on the error in the time computation.
\<close>

theorem semester_ziel_malformed_date:
  assumes "target_date sem = Some s" and "strp s = None"
  shows "semester_ziel strp now sem (Some avg)
     = Inr \<lparr>ziel_nachricht =
              (if avg \<le> target_grade sem then [GuterWeg] else [Anstrengen]) @ [ZeitFehler],
            ziel_klasse = klasse_of Missed, fortschritt_farbe = colour_of Missed\<rparr>"
  using assms
  by (simp add: semester_ziel_def zeitfortschritt_ValueError farbe_von_klasse_def)

theorem semester_ziel_malformed_date_witness:
  "target_date semester2 = Some ''31.12.2026''
   \<and> beispiel_strptime ''31.12.2026'' = None
   \<and> semester_ziel beispiel_strptime beispiel_now semester2 (Some 2)
       = Inr \<lparr>ziel_nachricht = [GuterWeg, ZeitFehler], ziel_klasse = ''ziel-verfehlt'',
              fortschritt_farbe = ''#f44336''\<rparr>"
proof -
  have d: "target_date semester2 = Some ''31.12.2026''" by (simp add: semester2_def)
  have p: "beispiel_strptime ''31.12.2026'' = None" by (simp add: beispiel_strptime_def)
  have g: "target_grade semester2 = 2" by (simp add: semester2_def)
  show ?thesis
    using semester_ziel_malformed_date [where strp = beispiel_strptime, OF d p, of beispiel_now 2]
      d p g by simp
qed

text \<open>
  Claim C3 as stated fails: the term \<open>semester3\<close> has a target date that does not parse
  and no graded unit, and its class is \<open>ziel-gefaehrdet\<close> (AtRisk), not Missed, with no
  error sentence in the message.
\<close>

theorem semester_ziel_malformed_date_counterexample:
  "target_date semester3 = Some ''31.12.2026''
   \<and> beispiel_strptime ''31.12.2026'' = None
   \<and> calculate_weighted_average (modules semester3) = Inr None
   \<and> semester_ziel beispiel_strptime beispiel_now semester3 None
       = Inr \<lparr>ziel_nachricht = [KeineNoten], ziel_klasse = ''ziel-gefaehrdet'',
              fortschritt_farbe = ''#ff9800''\<rparr>
   \<and> ''ziel-gefaehrdet'' \<noteq> klasse_of Missed"
  by (simp add: semester3_def calculate_weighted_average_def offenes_modul_def
      semester_ziel_def beispiel_strptime_def farbe_von_klasse_def)

text \<open>
  Claim C4. With a clock that reads at least 180 days after \<open>datetime.min\<close> and a
  parser that returns datetimes, the evaluation of a term returns the class of Achieved
  exactly when the average is present, the average is at most the target grade, and the
  elapsed fraction of the 180-day window ending at the target date is at most 100
  percent; and every result carries the colour of its class: Achieved green, AtRisk
  orange, Missed red.
\<close>

theorem semester_ziel_achieved_iff:
  assumes clock: "days 180 \<le> now" and parser: "datetimes_only strp"
  shows "((\<exists>z. semester_ziel strp now sem average = Inr z \<and> ziel_klasse z = klasse_of Achieved)
     \<longleftrightarrow> (\<exists>avg s target. average = Some avg \<and> avg \<le> target_grade sem
            \<and> target_date sem = Some s \<and> strp s = Some target
            \<and> elapsed_percent now target \<le> 100))
    \<and> (\<forall>z. semester_ziel strp now sem average = Inr z \<longrightarrow>
          (\<exists>c. ziel_klasse z = klasse_of c \<and> fortschritt_farbe z = colour_of c))"
  using semester_ziel_erreicht_iff [OF clock parser] semester_ziel_klasse_colour
  by blast

theorem semester_ziel_achieved_iff_witness:
  "days 180 \<le> beispiel_now
   \<and> datetimes_only beispiel_strptime
   \<and> (2::real) \<le> target_grade semester1
   \<and> elapsed_percent beispiel_now (days 741077) \<le> 100
   \<and> (\<exists>z. semester_ziel beispiel_strptime beispiel_now semester1 (Some 2) = Inr z
          \<and> ziel_klasse z = ''ziel-erreicht'' \<and> fortschritt_farbe z = ''#4CAF50'')"
proof -
  have clock: "days 180 \<le> beispiel_now" by (simp add: days_def beispiel_now_def)
  have g: "(2::real) \<le> target_grade semester1" by (simp add: semester1_def)
  have d: "target_date semester1 = Some ''2030-01-01''" by (simp add: semester1_def)
  have p: "beispiel_strptime ''2030-01-01'' = Some (days 741077)"
    by (simp add: beispiel_strptime_def)
  have e: "elapsed_percent beispiel_now (days 741077) \<le> 100"
    by (simp add: elapsed_percent_le) (simp add: beispiel_now_def days_def)
  note inst = semester_ziel_achieved_iff [OF clock datetimes_only_beispiel,
      of semester1 "Some 2"]
  from inst g d p e obtain z where
    z: "semester_ziel beispiel_strptime beispiel_now semester1 (Some 2) = Inr z"
      "ziel_klasse z = klasse_of Achieved"
    by blast
  from inst z(1) obtain c where
    c: "ziel_klasse z = klasse_of c" "fortschritt_farbe z = colour_of c"
    by blast
  from z(2) c(1) have "c = Achieved" by (cases c) simp_all
  with z c have "ziel_klasse z = ''ziel-erreicht'' \<and> fortschritt_farbe z = ''#4CAF50''"
    by simp
  with z(1) clock datetimes_only_beispiel g e show ?thesis by blast
qed


subsection \<open>The overall goal\<close>

lemma round_half_even_nonneg: "0 \<le> y \<Longrightarrow> 0 \<le> round_half_even y"
  unfolding round_half_even_def by auto

lemma round_half_even_nonpos: "y \<le> 0 \<Longrightarrow> round_half_even y \<le> 0"
proof -
  assume y: "y \<le> 0"
  have f: "real_of_int \<lfloor>y\<rfloor> \<le> y" by linarith
  show ?thesis
  proof (cases "y = real_of_int \<lfloor>y\<rfloor>")
    case True
    then have "y - real_of_int \<lfloor>y\<rfloor> < 1 / 2" by simp
    then have "round_half_even y = \<lfloor>y\<rfloor>" by (simp add: round_half_even_def)
    with y show ?thesis by linarith
  next
    case False
    with f y have "real_of_int \<lfloor>y\<rfloor> < 0" by linarith
    then have "\<lfloor>y\<rfloor> + 1 \<le> 0" by linarith
    moreover have "round_half_even y \<le> \<lfloor>y\<rfloor> + 1" by (simp add: round_half_even_def)
    ultimately show ?thesis by linarith
  qed
qed

lemma round_double_nonneg: "0 \<le> x \<Longrightarrow> 0 \<le> round_double x"
  by (simp add: round_double_def Let_def round_half_even_nonneg)

lemma round_double_nonpos: "x \<le> 0 \<Longrightarrow> round_double x \<le> 0"
proof -
  assume x: "x \<le> 0"
  have "real_of_int (round_half_even (x / q)) * q \<le> 0" if "0 < q" for q
  proof -
    from x that have "x / q \<le> 0" by (simp add: divide_nonpos_pos)
    from round_half_even_nonpos [OF this] have "real_of_int (round_half_even (x / q)) \<le> 0"
      by simp
    with that show ?thesis by (simp add: mult_nonpos_nonneg)
  qed
  then show ?thesis by (simp add: round_double_def Let_def)
qed

lemma float_of_int_100: "float_of_int 100 = 100"
  by code_simp

lemma py_int_double_percent:
  assumes "0 < avg"
  shows "py_int (double_percent otg avg)
     = (if 0 \<le> otg then \<lfloor>double_percent otg avg\<rfloor> else \<lceil>double_percent otg avg\<rceil>)"
proof (cases "0 \<le> otg")
  case True
  with assms have "0 \<le> otg / avg" by simp
  then have "0 \<le> round_double (otg / avg) * 100" by (simp add: round_double_nonneg)
  then have "0 \<le> double_percent otg avg"
    unfolding double_percent_def by (rule round_double_nonneg)
  with True show ?thesis by (simp add: py_int_def)
next
  case False
  with assms have "otg / avg \<le> 0" by (simp add: divide_nonpos_pos)
  then have "round_double (otg / avg) \<le> 0" by (rule round_double_nonpos)
  then have "round_double (otg / avg) * 100 \<le> 0" by simp
  then have le: "double_percent otg avg \<le> 0"
    unfolding double_percent_def by (rule round_double_nonpos)
  show ?thesis
  proof (cases "double_percent otg avg = 0")
    case True
    with False show ?thesis by (simp add: py_int_def)
  next
    case nz: False
    with le have "\<not> 0 \<le> double_percent otg avg" by simp
    with False show ?thesis by (simp add: py_int_def)
  qed
qed

lemma overall_notenfortschritt_prozent:
  assumes "overall_notenfortschritt otg avg = Inr (nk, prozent)" and "otg < avg"
  shows "prozent = (if 0 < avg then py_int (double_percent otg avg) else 0)"
  using assms
  by (auto simp: overall_notenfortschritt_def truediv_def fmul_def double_percent_def
      float_of_int_100 split: if_splits)

lemma zeitfortschritt_beispiel:
  "zeitfortschritt beispiel_strptime beispiel_now (Some ''2030-01-01'') 1095
     ZeitLaeuftAbStudium (nachricht, klasse) = Inr (nachricht, klasse)"
  by (subst zeitfortschritt_parsed [where target = "days 741077"])
    (simp_all add: beispiel_strptime_def beispiel_now_def days_def datetime_max_def)

lemma overall_beispiel_gefaehrdet:
  assumes "otg < avg" and "0 < avg"
  shows "dashboard_overall_ziel beispiel_strptime beispiel_now (Some ''2030-01-01'') otg
       (Some avg)
     = Inr \<lparr>overall_ziel_nachricht = [AnstrengenGesamt],
            overall_ziel_klasse = ''ziel-gefaehrdet'',
            overall_fortschritt_prozent = py_int (double_percent otg avg),
            overall_fortschritt_farbe = ''#ff9800''\<rparr>"
  using assms
  by (simp add: dashboard_overall_ziel_def overall_notenfortschritt_def truediv_def fmul_def
      double_percent_def float_of_int_100 zeitfortschritt_beispiel farbe_von_klasse_def)

text \<open>Values of the examples, with the decimals written as fractions in lowest terms.\<close>

lemma double_percent_values:
  "double_percent 2 (5 / 2) = 80"
  "double_percent (py_float (6 / 5)) 2 = 60"
  "double_percent (py_float (29 / 10)) 5 = 8162774324609023 / 140737488355328"
  "double_percent (- 1) 3 = - (2345624805922133 / 70368744177664)"
  by code_simp+

lemma py_float_values:
  "py_float (6 / 5) = 5404319552844595 / 4503599627370496"
  "py_float (29 / 10) = 6530219459687219 / 2251799813685248"
  by code_simp+

text \<open>
  Claim C7, as amended. In a programme evaluation that returns, with the overall average
  present and greater than the target grade, the percentage is, when the average is
  positive, \<open>target_grade / average * 100\<close> computed in double arithmetic (the quotient
  and then the product, each rounded to the nearest double) and truncated towards zero:
  the floor for a target grade that is not negative, the ceiling for a negative one. It
  is 0 when the average is not positive.
\<close>

theorem overall_prozent_truncated:
  assumes ret: "dashboard_overall_ziel strp now date otg (Some avg) = Inr r"
    and gt: "otg < avg"
  shows "overall_fortschritt_prozent r =
     (if 0 < avg
      then (if 0 \<le> otg then \<lfloor>double_percent otg avg\<rfloor> else \<lceil>double_percent otg avg\<rceil>)
      else 0)"
proof -
  from ret obtain nk prozent where
    n: "overall_notenfortschritt otg avg = Inr (nk, prozent)"
    and p: "overall_fortschritt_prozent r = prozent"
    by (auto simp: dashboard_overall_ziel_def split: sum.splits prod.splits)
  have q: "overall_fortschritt_prozent r
      = (if 0 < avg then py_int (double_percent otg avg) else 0)"
    using overall_notenfortschritt_prozent [OF n gt] p by simp
  show ?thesis
  proof (cases "0 < avg")
    case True
    with q py_int_double_percent [OF True, of otg] show ?thesis by (simp only: if_True)
  next
    case False
    with q show ?thesis by (simp only: if_False)
  qed
qed

theorem overall_prozent_truncated_witness:
  "dashboard_overall_ziel beispiel_strptime beispiel_now (Some ''2030-01-01'') 2 (Some 2.5)
     = Inr \<lparr>overall_ziel_nachricht = [AnstrengenGesamt],
            overall_ziel_klasse = ''ziel-gefaehrdet'',
            overall_fortschritt_prozent = 80, overall_fortschritt_farbe = ''#ff9800''\<rparr>
   \<and> (2::real) < 2.5
   \<and> \<lfloor>double_percent 2 2.5\<rfloor> = 80"
proof -
  have gt: "(2::real) < 2.5" by simp
  have r: "dashboard_overall_ziel beispiel_strptime beispiel_now (Some ''2030-01-01'') 2
       (Some 2.5)
     = Inr \<lparr>overall_ziel_nachricht = [AnstrengenGesamt],
            overall_ziel_klasse = ''ziel-gefaehrdet'',
            overall_fortschritt_prozent = 80,
            overall_fortschritt_farbe = ''#ff9800''\<rparr>"
    using overall_beispiel_gefaehrdet [OF gt]
    by (simp add: double_percent_values py_int_def)
  have "\<lfloor>double_percent 2 2.5\<rfloor> = 80"
    using overall_prozent_truncated [OF r gt] by simp
  with r gt show ?thesis by (simp only: simp_thms)
qed

text \<open>
  Claim C7 as stated fails in two ways. The arithmetic is not exact: with the target
  grade 1.2 (the double nearest to it) and the average 2 the percentage is 60, where the
  floor of the exact ratio of the two doubles is 59; with the target grade 2.9 and the
  average 5 the percentage is 57, where the floor of the exact \<open>2.9 / 5 * 100\<close> is 58.
  And the integer is truncated, not floored: with the target grade \<open>-1\<close> and the average
  3 the percentage is \<open>-33\<close>, where the floor is \<open>-34\<close>.
\<close>

theorem overall_prozent_floor_counterexample:
  "dashboard_overall_ziel beispiel_strptime beispiel_now (Some ''2030-01-01'') (py_float 1.2)
       (Some 2)
     = Inr \<lparr>overall_ziel_nachricht = [AnstrengenGesamt],
            overall_ziel_klasse = ''ziel-gefaehrdet'',
            overall_fortschritt_prozent = 60, overall_fortschritt_farbe = ''#ff9800''\<rparr>
   \<and> py_float 1.2 < 2
   \<and> \<lfloor>py_float 1.2 / 2 * 100\<rfloor> = 59
   \<and> dashboard_overall_ziel beispiel_strptime beispiel_now (Some ''2030-01-01'')
       (py_float 2.9) (Some 5)
     = Inr \<lparr>overall_ziel_nachricht = [AnstrengenGesamt],
            overall_ziel_klasse = ''ziel-gefaehrdet'',
            overall_fortschritt_prozent = 57, overall_fortschritt_farbe = ''#ff9800''\<rparr>
   \<and> py_float 2.9 < 5
   \<and> \<lfloor>(2.9 :: real) / 5 * 100\<rfloor> = 58
   \<and> dashboard_overall_ziel beispiel_strptime beispiel_now (Some ''2030-01-01'') (- 1) (Some 3)
     = Inr \<lparr>overall_ziel_nachricht = [AnstrengenGesamt],
            overall_ziel_klasse = ''ziel-gefaehrdet'',
            overall_fortschritt_prozent = - 33, overall_fortschritt_farbe = ''#ff9800''\<rparr>
   \<and> (- 1 :: real) < 3
   \<and> \<lfloor>(- 1 :: real) / 3 * 100\<rfloor> = - 34"
proof -
  have a: "py_float 1.2 < 2" "py_float 2.9 < 5" by (simp_all add: py_float_values)
  have i: "py_int (double_percent (py_float (6 / 5)) 2) = 60"
    "py_int (double_percent (py_float (29 / 10)) 5) = 57"
    "py_int (double_percent (- 1) 3) = - 33"
    by (simp_all add: double_percent_values py_int_def floor_eq_iff ceiling_eq_iff)
  have f: "\<lfloor>py_float 1.2 / 2 * 100\<rfloor> = 59" "\<lfloor>(2.9 :: real) / 5 * 100\<rfloor> = 58"
    "\<lfloor>(- 1 :: real) / 3 * 100\<rfloor> = - 34"
    by (simp_all add: py_float_values floor_eq_iff)
  have 1: "dashboard_overall_ziel beispiel_strptime beispiel_now (Some ''2030-01-01'')
       (py_float 1.2) (Some 2)
     = Inr \<lparr>overall_ziel_nachricht = [AnstrengenGesamt],
            overall_ziel_klasse = ''ziel-gefaehrdet'',
            overall_fortschritt_prozent = 60, overall_fortschritt_farbe = ''#ff9800''\<rparr>"
    using overall_beispiel_gefaehrdet [OF a(1)] by (simp add: i)
  have 2: "dashboard_overall_ziel beispiel_strptime beispiel_now (Some ''2030-01-01'')
       (py_float 2.9) (Some 5)
     = Inr \<lparr>overall_ziel_nachricht = [AnstrengenGesamt],
            overall_ziel_klasse = ''ziel-gefaehrdet'',
            overall_fortschritt_prozent = 57, overall_fortschritt_farbe = ''#ff9800''\<rparr>"
    using overall_beispiel_gefaehrdet [OF a(2)] by (simp add: i)
  have 3: "dashboard_overall_ziel beispiel_strptime beispiel_now (Some ''2030-01-01'')
       (- 1) (Some 3)
     = Inr \<lparr>overall_ziel_nachricht = [AnstrengenGesamt],
            overall_ziel_klasse = ''ziel-gefaehrdet'',
            overall_fortschritt_prozent = - 33, overall_fortschritt_farbe = ''#ff9800''\<rparr>"
    using overall_beispiel_gefaehrdet [of "- 1" 3] by (simp add: i)
  have b: "(- 1 :: real) < 3" by simp
  from 1 2 3 a b f show ?thesis by (simp only: simp_thms)
qed

subsection \<open>Facts about the completion check\<close>


lemma semester_abgeschlossen_Inr:
  assumes "semester_abgeschlossen strp now sem average st = Inr st'"
  shows "(average = None \<and> st' = st)
     \<or> (\<exists>avg s. average = Some avg \<and> target_date sem = Some s \<and> strp s = None
           \<and> st' = (fst st, snd st @ [(UngueltigesZieldatum (name sem), ''danger'')]))
     \<or> (\<exists>avg s d. average = Some avg \<and> target_date sem = Some s \<and> strp s = Some d
           \<and> st' = (if transition_condition now d sem
                    then melde_abgeschlossen sem avg st
                    else ((fst st)(sem_id sem \<mapsto> False), snd st)))"
  using assms
  by (auto simp: semester_abgeschlossen_def strptime_def datetime_add_def
      transition_condition_def split: option.splits sum.splits if_splits)

lemma melde_abgeschlossen_flag_set:
  "sess (sem_id sem) = Some True \<Longrightarrow> melde_abgeschlossen sem avg (sess, fl) = (sess, fl)"
  by (simp add: melde_abgeschlossen_def)



lemma avg_semester1: "calculate_weighted_average (modules semester1) = Inr (Some 2)"
  by code_simp

lemma avg_semester1_erweitert:
  "calculate_weighted_average (modules semester1_erweitert) = Inr (Some 2)"
  by code_simp


lemma zeitfortschritt_beispiel_180:
  "zeitfortschritt beispiel_strptime beispiel_now (Some ''2030-01-01'') 180
     warnung (nachricht, klasse) = Inr (nachricht, klasse)"
  by (subst zeitfortschritt_parsed [where target = "days 741077"])
    (simp_all add: beispiel_strptime_def beispiel_now_def days_def datetime_max_def)

lemma ziel_semester1:
  "semester_ziel beispiel_strptime beispiel_now semester1 (Some 2)
     = Inr \<lparr>ziel_nachricht = [GuterWeg], ziel_klasse = ''ziel-erreicht'',
            fortschritt_farbe = ''#4CAF50''\<rparr>"
  by (simp add: semester_ziel_def semester1_def zeitfortschritt_beispiel_180
      farbe_von_klasse_def)

lemma ziel_semester1_erweitert:
  "semester_ziel beispiel_strptime beispiel_now semester1_erweitert (Some 2)
     = Inr \<lparr>ziel_nachricht = [GuterWeg], ziel_klasse = ''ziel-erreicht'',
            fortschritt_farbe = ''#4CAF50''\<rparr>"
  by (simp add: semester_ziel_def semester1_erweitert_def zeitfortschritt_beispiel_180
      farbe_von_klasse_def)


lemma overall_beispiel:
  "dashboard_overall_ziel beispiel_strptime beispiel_now (Some ''2030-01-01'') 2 (Some 2)
     = Inr \<lparr>overall_ziel_nachricht = [GuterWegGesamt],
            overall_ziel_klasse = ''ziel-erreicht'',
            overall_fortschritt_prozent = 100,
            overall_fortschritt_farbe = ''#4CAF50''\<rparr>"
  by (simp add: dashboard_overall_ziel_def overall_notenfortschritt_def
      zeitfortschritt_beispiel farbe_von_klasse_def)

lemma abgeschlossen_semester1:
  "semester_abgeschlossen beispiel_strptime beispiel_now semester1 (Some 2) (Map.empty, [])
     = Inr ([1 \<mapsto> True], [(SemesterAbgeschlossen ''Semester 1'' 200, ''success'')])"
  by (simp add: semester_abgeschlossen_def strptime_def semester1_def beispiel_strptime_def
      beispiel_now_def datetime_add_def datetime_max_def days_def all_graded_def
      mathematik_def informatik_def melde_abgeschlossen_def format_2f_2 del: not_None_eq)

lemma abgeschlossen_semester1_erweitert:
  "semester_abgeschlossen beispiel_strptime beispiel_now semester1_erweitert (Some 2)
     ([1 \<mapsto> True], []) = Inr ([1 \<mapsto> False], [])"
  by (simp add: semester_abgeschlossen_def strptime_def semester1_erweitert_def
      beispiel_strptime_def beispiel_now_def datetime_add_def datetime_max_def days_def
      all_graded_def mathematik_def informatik_def offenes_modul_def del: not_None_eq)


lemma abgeschlossen_semester1_flag_set:
  "semester_abgeschlossen beispiel_strptime beispiel_now semester1 (Some 2)
     ([1 \<mapsto> True], []) = Inr ([1 \<mapsto> True], [])"
  by (simp add: semester_abgeschlossen_def strptime_def semester1_def beispiel_strptime_def
      beispiel_now_def datetime_add_def datetime_max_def days_def all_graded_def
      mathematik_def informatik_def melde_abgeschlossen_def del: not_None_eq)

text \<open>
  A term past its window is Missed, and the last date of the calendar makes
  \<open>target_date + 30 days\<close> raise \<open>OverflowError\<close>, which nothing catches.
\<close>

lemma ziel_semester4:
  "semester_ziel beispiel_strptime beispiel_now semester4 (Some 2.5)
     = Inr \<lparr>ziel_nachricht = [Anstrengen, ZeitLaeuftAb], ziel_klasse = ''ziel-verfehlt'',
            fortschritt_farbe = ''#f44336''\<rparr>"
proof -
  have "zeitfortschritt beispiel_strptime beispiel_now (Some ''2020-01-01'') 180
          ZeitLaeuftAb ([Anstrengen], ''ziel-gefaehrdet'')
        = Inr ([Anstrengen, ZeitLaeuftAb], ''ziel-verfehlt'')"
    by (subst zeitfortschritt_parsed [where target = "days 737424"])
      (simp_all add: beispiel_strptime_def beispiel_now_def days_def datetime_max_def)
  then show ?thesis
    by (simp add: semester_ziel_def semester4_def farbe_von_klasse_def)
qed

lemma abgeschlossen_semester5:
  "semester_abgeschlossen beispiel_strptime beispiel_now semester5 (Some 2) (sess, fl)
     = Inl OverflowError"
  by (simp add: semester_abgeschlossen_def strptime_def semester5_def beispiel_strptime_def
      datetime_add_def datetime_max_def days_def)

subsection \<open>From one term to a pass\<close>

text \<open>
  The evaluation of a term touches no flag but its own, and what it does to its own flag
  depends on no other flag. So, in a pass over terms with distinct ids, the flag of a
  term after the pass is the flag that its own evaluation produces from the session the
  pass started with.
\<close>

lemma semester_abgeschlossen_frame:
  assumes "semester_abgeschlossen strp now s a (sess, fl) = Inr (sess', fl')"
    and "k \<noteq> sem_id s"
  shows "sess' k = sess k"
  using semester_abgeschlossen_Inr [OF assms(1)] assms(2)
  by (auto simp: melde_abgeschlossen_def split: if_splits)

lemma abgeschlossen_loop_frame:
  assumes "abgeschlossen_loop strp now sas (sess, fl) = Inr (sess', fl')"
    and "k \<notin> sem_id ` fst ` set sas"
  shows "sess' k = sess k"
  using assms
proof (induction sas arbitrary: sess fl)
  case Nil
  then show ?case by simp
next
  case (Cons sa sas)
  obtain s a where sa: "sa = (s, a)" by (cases sa)
  from Cons.prems(1) sa obtain sess1 fl1 where
    step: "semester_abgeschlossen strp now s a (sess, fl) = Inr (sess1, fl1)"
    and rest: "abgeschlossen_loop strp now sas (sess1, fl1) = Inr (sess', fl')"
    by (auto split: sum.splits)
  from Cons.prems(2) sa have k: "k \<noteq> sem_id s" "k \<notin> sem_id ` fst ` set sas" by auto
  from Cons.IH [OF rest k(2)] semester_abgeschlossen_frame [OF step k(1)]
  show ?case by simp
qed

lemma semester_abgeschlossen_own_flag:
  assumes "semester_abgeschlossen strp now s a (sess_a, fl_a) = Inr (sess_a', fl_a')"
    and "sess_b (sem_id s) = sess_a (sem_id s)"
  shows "\<exists>sess_b' fl_b'.
           semester_abgeschlossen strp now s a (sess_b, fl_b) = Inr (sess_b', fl_b')
           \<and> sess_b' (sem_id s) = sess_a' (sem_id s)"
  using assms
  by (auto simp: semester_abgeschlossen_def melde_abgeschlossen_def
      split: option.splits sum.splits if_splits)

lemma abgeschlossen_loop_flag:
  assumes "abgeschlossen_loop strp now sas (sess, fl) = Inr (sess', fl')"
    and "(s, a) \<in> set sas"
    and "distinct (map sem_id (map fst sas))"
  shows "\<exists>sess1 fl1. semester_abgeschlossen strp now s a (sess, []) = Inr (sess1, fl1)
           \<and> sess' (sem_id s) = sess1 (sem_id s)"
  using assms
proof (induction sas arbitrary: sess fl)
  case Nil
  then show ?case by simp
next
  case (Cons sa sas)
  obtain t b where sa: "sa = (t, b)" by (cases sa)
  from Cons.prems(1) sa obtain sessm flm where
    step: "semester_abgeschlossen strp now t b (sess, fl) = Inr (sessm, flm)"
    and rest: "abgeschlossen_loop strp now sas (sessm, flm) = Inr (sess', fl')"
    by (auto split: sum.splits)
  from Cons.prems(3) sa have d: "sem_id t \<notin> sem_id ` fst ` set sas"
    "distinct (map sem_id (map fst sas))"
    by (auto simp: image_image)
  show ?case
  proof (cases "(s, a) = (t, b)")
    case True
    from semester_abgeschlossen_own_flag [where sess_b = sess and fl_b = "[]", OF step]
    obtain sess1 fl1 where
      1: "semester_abgeschlossen strp now t b (sess, []) = Inr (sess1, fl1)"
        "sess1 (sem_id t) = sessm (sem_id t)"
      by auto
    from abgeschlossen_loop_frame [OF rest d(1)] have "sess' (sem_id t) = sessm (sem_id t)" .
    with 1 True show ?thesis by auto
  next
    case False
    with Cons.prems(2) sa have mem: "(s, a) \<in> set sas" by auto
    then have "sem_id s \<in> sem_id ` fst ` set sas" by force
    with d(1) have ne: "sem_id s \<noteq> sem_id t" by metis
    from Cons.IH [OF rest mem d(2)] obtain sess1 fl1 where
      1: "semester_abgeschlossen strp now s a (sessm, []) = Inr (sess1, fl1)"
        "sess' (sem_id s) = sess1 (sem_id s)"
      by auto
    from semester_abgeschlossen_frame [OF step ne] have "sessm (sem_id s) = sess (sem_id s)" .
    then have "sess (sem_id s) = sessm (sem_id s)" by simp
    from semester_abgeschlossen_own_flag [where sess_b = sess and fl_b = "[]", OF 1(1) this]
      1(2)
    show ?thesis by auto
  qed
qed

lemma average_loop_zip:
  assumes "average_loop ss = Inr avgs" and "s \<in> set ss"
  shows "\<exists>a. (s, a) \<in> set (zip ss avgs) \<and> calculate_weighted_average (modules s) = Inr a"
  using assms
proof (induction ss arbitrary: avgs)
  case Nil
  then show ?case by simp
next
  case (Cons t ts)
  from Cons.prems(1) obtain a as where
    a: "calculate_weighted_average (modules t) = Inr a"
    and as: "average_loop ts = Inr as" and avgs: "avgs = a # as"
    by (auto split: sum.splits)
  show ?case
  proof (cases "s = t")
    case True
    with a avgs show ?thesis by auto
  next
    case False
    with Cons.prems(2) have "s \<in> set ts" by simp
    from Cons.IH [OF as this] avgs show ?thesis by auto
  qed
qed

lemma average_loop_length: "average_loop ss = Inr avgs \<Longrightarrow> length avgs = length ss"
  by (induction ss arbitrary: avgs) (auto split: sum.splits)

subsection \<open>The completion of a term\<close>




text \<open>What the evaluation of a term does to a flag that is true.\<close>

lemma flag_after_body:
  assumes flag: "sess (sem_id sem) = Some True"
    and ret: "semester_abgeschlossen strp now sem average (sess, fl) = Inr (sess', fl')"
  shows "sess' (sem_id sem) =
     (if \<exists>avg s d. average = Some avg \<and> target_date sem = Some s \<and> strp s = Some d
            \<and> \<not> transition_condition now d sem
      then Some False else Some True)"
proof -
  let ?rearm = "\<exists>avg s d. average = Some avg \<and> target_date sem = Some s \<and> strp s = Some d
            \<and> \<not> transition_condition now d sem"
  from semester_abgeschlossen_Inr [OF ret]
  consider (absent) "average = None" "(sess', fl') = (sess, fl)"
    | (malformed) avg s where "average = Some avg" "target_date sem = Some s" "strp s = None"
        "sess' = sess"
    | (parsed) avg s d where "average = Some avg" "target_date sem = Some s" "strp s = Some d"
        "(sess', fl') = (if transition_condition now d sem
                    then melde_abgeschlossen sem avg (sess, fl)
                    else (sess(sem_id sem \<mapsto> False), fl))"
    by auto
  then show ?thesis
  proof cases
    case absent
    then have "\<not> ?rearm" by simp
    with absent flag show ?thesis by simp
  next
    case malformed
    then have "\<not> ?rearm" by simp
    with malformed flag show ?thesis by simp
  next
    case parsed
    show ?thesis
    proof (cases "transition_condition now d sem")
      case True
      with parsed have "\<not> ?rearm" by simp
      moreover from parsed True flag have "sess' = sess"
        by (simp add: melde_abgeschlossen_flag_set)
      ultimately show ?thesis using flag by simp
    next
      case False
      with parsed have "?rearm" by simp
      moreover from parsed False have "sess' = sess(sem_id sem \<mapsto> False)" by simp
      ultimately show ?thesis by simp
    qed
  qed
qed

text \<open>
  Claim C2, as amended. In a pass over terms with distinct ids that returns, a term whose
  stored flag is true before the pass has it true afterwards if its average is absent,
  its target date does not parse, or the transition condition holds; it has it false
  afterwards if its average is present, its date parses and the transition condition
  does not hold.
\<close>

theorem dashboard_flag_after_pass:
  assumes ret: "dashboard strp now semesters overall_date overall_grade sess = Inr r"
    and ids: "distinct (map sem_id semesters)"
    and mem: "sem \<in> set semesters"
    and flag: "sess (sem_id sem) = Some True"
  shows "session_after r (sem_id sem) =
     (if \<exists>avg s d. calculate_weighted_average (modules sem) = Inr (Some avg)
            \<and> target_date sem = Some s \<and> strp s = Some d
            \<and> \<not> transition_condition now d sem
      then Some False else Some True)"
proof -
  from ret obtain avgs sess' fl' where
    avgs: "average_loop semesters = Inr avgs"
    and loop: "abgeschlossen_loop strp now (zip semesters avgs) (sess, []) = Inr (sess', fl')"
    and r: "session_after r = sess'"
    by (auto simp: dashboard_def split: sum.splits prod.splits)
  from average_loop_zip [OF avgs mem] obtain a where
    a: "(sem, a) \<in> set (zip semesters avgs)"
      "calculate_weighted_average (modules sem) = Inr a"
    by blast
  have "map fst (zip semesters avgs) = semesters"
    using average_loop_length [OF avgs] by simp
  with ids have d: "distinct (map sem_id (map fst (zip semesters avgs)))" by simp
  from abgeschlossen_loop_flag [OF loop a(1) d] obtain sess1 fl1 where
    body: "semester_abgeschlossen strp now sem a (sess, []) = Inr (sess1, fl1)"
    and eq: "sess' (sem_id sem) = sess1 (sem_id sem)"
    by blast
  from flag_after_body [OF flag body] eq r a(2) show ?thesis by simp
qed

theorem dashboard_flag_after_pass_witness:
  "dashboard beispiel_strptime beispiel_now [semester1] (Some ''2030-01-01'') 2 [1 \<mapsto> True]
     = Inr \<lparr>averages = [Some 2], total_average = Some 2,
            ziele = [\<lparr>ziel_nachricht = [GuterWeg], ziel_klasse = ''ziel-erreicht'',
                      fortschritt_farbe = ''#4CAF50''\<rparr>],
            overall = \<lparr>overall_ziel_nachricht = [GuterWegGesamt],
                       overall_ziel_klasse = ''ziel-erreicht'',
                       overall_fortschritt_prozent = 100,
                       overall_fortschritt_farbe = ''#4CAF50''\<rparr>,
            session_after = [1 \<mapsto> True],
            flashed = []\<rparr>
   \<and> distinct (map sem_id [semester1])
   \<and> [1 \<mapsto> True] (sem_id semester1) = Some True
   \<and> all_graded (modules semester1)"
proof -
  have i: "sem_id semester1 = 1" by (simp add: semester1_def)
  have p: "dashboard beispiel_strptime beispiel_now [semester1] (Some ''2030-01-01'') 2
       [1 \<mapsto> True]
     = Inr \<lparr>averages = [Some 2], total_average = Some 2,
            ziele = [\<lparr>ziel_nachricht = [GuterWeg], ziel_klasse = ''ziel-erreicht'',
                      fortschritt_farbe = ''#4CAF50''\<rparr>],
            overall = \<lparr>overall_ziel_nachricht = [GuterWegGesamt],
                       overall_ziel_klasse = ''ziel-erreicht'',
                       overall_fortschritt_prozent = 100,
                       overall_fortschritt_farbe = ''#4CAF50''\<rparr>,
            session_after = [1 \<mapsto> True],
            flashed = []\<rparr>"
    using avg_semester1
    by (simp add: dashboard_def ziel_semester1 abgeschlossen_semester1_flag_set
        overall_beispiel)
  have d: "distinct (map sem_id [semester1])" by simp
  have m: "semester1 \<in> set [semester1]" by simp
  have f: "[1 \<mapsto> True] (sem_id semester1) = Some True" by (simp add: i)
  have g: "all_graded (modules semester1)"
    by (simp add: all_graded_def semester1_def mathematik_def informatik_def
        del: not_None_eq)
  have "\<not> (\<exists>avg s d. calculate_weighted_average (modules semester1) = Inr (Some avg)
            \<and> target_date semester1 = Some s \<and> beispiel_strptime s = Some d
            \<and> \<not> transition_condition beispiel_now d semester1)"
    using g by (simp add: transition_condition_def)
  with dashboard_flag_after_pass [OF p d m f]
  have "[1 \<mapsto> True] (sem_id semester1) = Some True" by simp
  with p d g show ?thesis by simp
qed

text \<open>
  Claim C2 as stated fails. A first pass over \<open>semester1\<close> (all units graded) with an
  empty session sets the flag of term 1 and flashes the notification; a second pass,
  after an ungraded unit has been added to the term, starts with the flag true and ends
  with the flag false.
\<close>

theorem abgeschlossen_flag_reset_counterexample:
  "dashboard beispiel_strptime beispiel_now [semester1] (Some ''2030-01-01'') 2 Map.empty
     = Inr \<lparr>averages = [Some 2], total_average = Some 2,
            ziele = [\<lparr>ziel_nachricht = [GuterWeg], ziel_klasse = ''ziel-erreicht'',
                      fortschritt_farbe = ''#4CAF50''\<rparr>],
            overall = \<lparr>overall_ziel_nachricht = [GuterWegGesamt],
                       overall_ziel_klasse = ''ziel-erreicht'',
                       overall_fortschritt_prozent = 100,
                       overall_fortschritt_farbe = ''#4CAF50''\<rparr>,
            session_after = [1 \<mapsto> True],
            flashed = [(SemesterAbgeschlossen ''Semester 1'' 200, ''success'')]\<rparr>
   \<and> dashboard beispiel_strptime beispiel_now [semester1_erweitert] (Some ''2030-01-01'') 2
       [1 \<mapsto> True]
     = Inr \<lparr>averages = [Some 2], total_average = Some 2,
            ziele = [\<lparr>ziel_nachricht = [GuterWeg], ziel_klasse = ''ziel-erreicht'',
                      fortschritt_farbe = ''#4CAF50''\<rparr>],
            overall = \<lparr>overall_ziel_nachricht = [GuterWegGesamt],
                       overall_ziel_klasse = ''ziel-erreicht'',
                       overall_fortschritt_prozent = 100,
                       overall_fortschritt_farbe = ''#4CAF50''\<rparr>,
            session_after = [1 \<mapsto> False],
            flashed = []\<rparr>
   \<and> sem_id semester1 = 1 \<and> sem_id semester1_erweitert = 1"
proof -
  have 1: "dashboard beispiel_strptime beispiel_now [semester1] (Some ''2030-01-01'') 2 Map.empty
     = Inr \<lparr>averages = [Some 2], total_average = Some 2,
            ziele = [\<lparr>ziel_nachricht = [GuterWeg], ziel_klasse = ''ziel-erreicht'',
                      fortschritt_farbe = ''#4CAF50''\<rparr>],
            overall = \<lparr>overall_ziel_nachricht = [GuterWegGesamt],
                       overall_ziel_klasse = ''ziel-erreicht'',
                       overall_fortschritt_prozent = 100,
                       overall_fortschritt_farbe = ''#4CAF50''\<rparr>,
            session_after = [1 \<mapsto> True],
            flashed = [(SemesterAbgeschlossen ''Semester 1'' 200, ''success'')]\<rparr>"
    using avg_semester1
    by (simp add: dashboard_def ziel_semester1 abgeschlossen_semester1 overall_beispiel)
  have 2: "dashboard beispiel_strptime beispiel_now [semester1_erweitert]
       (Some ''2030-01-01'') 2 [1 \<mapsto> True]
     = Inr \<lparr>averages = [Some 2], total_average = Some 2,
            ziele = [\<lparr>ziel_nachricht = [GuterWeg], ziel_klasse = ''ziel-erreicht'',
                      fortschritt_farbe = ''#4CAF50''\<rparr>],
            overall = \<lparr>overall_ziel_nachricht = [GuterWegGesamt],
                       overall_ziel_klasse = ''ziel-erreicht'',
                       overall_fortschritt_prozent = 100,
                       overall_fortschritt_farbe = ''#4CAF50''\<rparr>,
            session_after = [1 \<mapsto> False],
            flashed = []\<rparr>"
    using avg_semester1_erweitert
    by (simp add: dashboard_def ziel_semester1_erweitert abgeschlossen_semester1_erweitert
        overall_beispiel)
  have 3: "sem_id semester1 = 1 \<and> sem_id semester1_erweitert = 1"
    by (simp add: semester1_def semester1_erweitert_def)
  from 1 2 3 show ?thesis by (simp only: simp_thms)
qed

end
